theory Spec2Isabelle
  imports Complex_Main "HOL-Library.AList" "HOL-Library.Char_ord" "HOL-Library.List_Lexorder"
    "HOL-Library.Product_Lexorder"
begin

section \<open>The rolling price store (dailyPrices.py, recentIPOTickersAndPrices.py)\<close>

text \<open>
  The store is the CSV file \<^verbatim>\<open>tickersAndPrices.csv\<close>: one row per ticker with the columns
  \<^verbatim>\<open>ticker, 31DaysAgo_price, ..., 1DaysAgo_price, Today_price, Day_move, Week_move, Month_move\<close>.
  A numeric field is either empty (pandas reads it back as NaN, \<^verbatim>\<open>pd.notna\<close> is false) or a
  number: \<open>None\<close> or \<open>Some v\<close>. Prices are Python floats; the model leaves the number type
  open (any type with \<open>0\<close> and \<open>-\<close>), so no statement depends on how a subtraction rounds.
  The column \<^verbatim>\<open>{i}DaysAgo_price\<close> is \<open>days_ago row i\<close>; only \<open>1 \<le> i \<le> 31\<close> are columns.
  Reading and writing the file are assumed to succeed; \<open>None\<close> as a store is the file that
  does not exist or has size 0. The class \<^verbatim>\<open>RecentIPOPriceUpdater\<close> of
  recentIPOTickersAndPrices.py has the same \<^verbatim>\<open>fetch_prices_for_tickers\<close>,
  \<^verbatim>\<open>update_csv_with_new_tickers\<close> and \<^verbatim>\<open>roll_prices_for_existing_tickers\<close>, line for line,
  on its own file; the definitions below are both.
\<close>

record 'a price_row =
  ticker :: string
  days_ago :: "nat \<Rightarrow> 'a option"
  Today_price :: "'a option"
  Day_move :: "'a option"
  Week_move :: "'a option"
  Month_move :: "'a option"

type_synonym 'a store = "'a price_row list option"

text \<open>The Python exceptions that the modelled code can raise.\<close>

datatype py_error =
  RequestException | ValueError | KeyError | TypeError | AttributeError | IndexError | SyntaxError

text \<open>\<^verbatim>\<open>load_existing_tickers\<close>: the ticker column of the store, \<^verbatim>\<open>[]\<close> when there is no file.\<close>

definition load_existing_tickers :: "'a store \<Rightarrow> string list" where
  "load_existing_tickers csv = (case csv of Some df \<Rightarrow> map ticker df | None \<Rightarrow> [])"

text \<open>
  \<^verbatim>\<open>unique_new_tickers[:limit]\<close>, with Python's reading of a negative bound.
\<close>

definition slice_to :: "int \<Rightarrow> 'b list \<Rightarrow> 'b list" where
  "slice_to k xs = (if k < 0 then take (nat (int (length xs) + k)) xs else take (nat k) xs)"

text \<open>The loop of lines 69-74: first occurrences, in order.\<close>

fun unique_in_order :: "string list \<Rightarrow> string list \<Rightarrow> string list" where
  "unique_in_order seen [] = []"
| "unique_in_order seen (t # ts) =
     (if t \<notin> set seen then t # unique_in_order (t # seen) ts else unique_in_order seen ts)"

text \<open>
  \<^verbatim>\<open>get_new_tickers_from_working_rolling\<close>. \<open>working\<close> is the ticker column of
  \<^verbatim>\<open>workingRolling.csv\<close> (\<open>None\<close> for a missing value, dropped by \<^verbatim>\<open>dropna\<close>), or \<open>None\<close>
  when the file cannot be read or has no such column: the \<^verbatim>\<open>except\<close> branch returns \<^verbatim>\<open>[]\<close>.
\<close>

definition get_new_tickers_from_working_rolling ::
  "string option list option \<Rightarrow> int option \<Rightarrow> 'a store \<Rightarrow> string list" where
  "get_new_tickers_from_working_rolling working limit csv =
     (case working of
        None \<Rightarrow> []
      | Some df_working \<Rightarrow>
          (let existing_tickers = set (load_existing_tickers csv);
               all_tickers = map the (filter (\<lambda>c. c \<noteq> None) df_working);
               new_tickers = filter (\<lambda>t. t \<notin> existing_tickers) all_tickers;
               unique_new_tickers = unique_in_order [] new_tickers
           in (case limit of
                 None \<Rightarrow> unique_new_tickers
               | Some k \<Rightarrow> if k \<noteq> 0 then slice_to k unique_new_tickers else unique_new_tickers)))"

text \<open>
  \<^verbatim>\<open>fetch_prices_for_tickers\<close>. \<open>get_ticker_price i t\<close> is what the call
  \<^verbatim>\<open>self.polygon_fetcher.get_ticker_price(ticker)\<close> gives at index \<open>i\<close> of the loop:
  a price, \<^verbatim>\<open>None\<close>, or an exception it lets through. The dictionary \<^verbatim>\<open>prices\<close> keeps
  insertion order; assigning to a key that is there replaces its value in place.
\<close>

fun fetch_prices_from ::
  "(nat \<Rightarrow> string \<Rightarrow> py_error + 'a option) \<Rightarrow> nat \<Rightarrow> string list \<Rightarrow> (string \<times> 'a) list
     \<Rightarrow> py_error + (string \<times> 'a) list" where
  "fetch_prices_from get_price i [] prices = Inr prices"
| "fetch_prices_from get_price i (t # ts) prices =
     (case get_price i t of
        Inl e \<Rightarrow> Inl e
      | Inr None \<Rightarrow> fetch_prices_from get_price (Suc i) ts prices
      | Inr (Some price) \<Rightarrow> fetch_prices_from get_price (Suc i) ts (AList.update t price prices))"

definition fetch_prices_for_tickers ::
  "(nat \<Rightarrow> string \<Rightarrow> py_error + 'a option) \<Rightarrow> string list \<Rightarrow> py_error + (string \<times> 'a) list" where
  "fetch_prices_for_tickers get_price tickers = fetch_prices_from get_price 0 tickers []"

text \<open>The \<^verbatim>\<open>row_data\<close> dictionary of lines 95-132.\<close>

definition row_data :: "string \<Rightarrow> 'a::zero \<Rightarrow> 'a price_row" where
  "row_data t price =
     \<lparr>ticker = t, days_ago = (\<lambda>i. None), Today_price = Some price,
      Day_move = Some 0, Week_move = Some 0, Month_move = Some 0\<rparr>"

text \<open>
  \<^verbatim>\<open>update_csv_with_new_tickers\<close>: one new row per entry of \<^verbatim>\<open>ticker_prices\<close>, concatenated
  after the existing rows (after an empty frame when there is no file), and written.
\<close>

definition update_csv_with_new_tickers :: "(string \<times> 'a::zero) list \<Rightarrow> 'a store \<Rightarrow> 'a store" where
  "update_csv_with_new_tickers ticker_prices csv =
     (let new_rows = map (\<lambda>(t, price). row_data t price) ticker_prices;
          df_existing = (case csv of Some df \<Rightarrow> df | None \<Rightarrow> [])
      in Some (df_existing @ new_rows))"

text \<open>
  The three moves of lines 156-169 share one shape: the difference to the baseline when the
  baseline is there and is not zero, \<^verbatim>\<open>0.0\<close> otherwise.
\<close>

definition move_from :: "'a::{minus,zero} \<Rightarrow> 'a option \<Rightarrow> 'a" where
  "move_from current_price baseline =
     (case baseline of
        Some b \<Rightarrow> if b \<noteq> 0 then current_price - b else 0
      | None \<Rightarrow> 0)"

text \<open>
  Lines 154-176, the body of the loop for a ticker that has a fresh price. The moves are
  computed from \<^verbatim>\<open>row\<close>, the row as it was read; then the loop over \<^verbatim>\<open>range(31, 1, -1)\<close>
  writes column \<open>i\<close> from column \<open>i - 1\<close> of \<^verbatim>\<open>row\<close>, and the last five assignments follow.
\<close>

definition roll_row :: "'a::{minus,zero} \<Rightarrow> 'a price_row \<Rightarrow> 'a price_row" where
  "roll_row current_price row =
     (let previous_today_price = Today_price row;
          day_move = move_from current_price previous_today_price;
          week_ago_price = days_ago row 7;
          week_move = move_from current_price week_ago_price;
          month_ago_price = days_ago row 30;
          month_move = move_from current_price month_ago_price;
          shifted = foldl (\<lambda>d i. d(i := days_ago row (i - 1))) (days_ago row) (rev [2..<32])
      in row\<lparr>days_ago := shifted(1 := previous_today_price),
             Today_price := Some current_price,
             Day_move := Some day_move,
             Week_move := Some week_move,
             Month_move := Some month_move\<rparr>)"

text \<open>The loop over \<^verbatim>\<open>df.iterrows()\<close>: each row is rewritten from its own snapshot.\<close>

definition roll_rows :: "(string \<times> 'a::{minus,zero}) list \<Rightarrow> 'a price_row list \<Rightarrow> 'a price_row list" where
  "roll_rows ticker_prices df =
     map (\<lambda>row. case map_of ticker_prices (ticker row) of
                  Some current_price \<Rightarrow> roll_row current_price row
                | None \<Rightarrow> row) df"

text \<open>
  \<^verbatim>\<open>roll_prices_for_existing_tickers\<close>: nothing happens without a file; an exception out of
  the fetch leaves the file as it was and is raised again.
\<close>

definition roll_prices_for_existing_tickers ::
  "(nat \<Rightarrow> string \<Rightarrow> py_error + 'a option) \<Rightarrow> 'a::{minus,zero} store \<Rightarrow> py_error + 'a store" where
  "roll_prices_for_existing_tickers get_price csv =
     (case csv of
        None \<Rightarrow> Inr None
      | Some df \<Rightarrow>
          (let existing_tickers = map ticker df
           in case fetch_prices_for_tickers get_price existing_tickers of
                Inl e \<Rightarrow> Inl e
              | Inr ticker_prices \<Rightarrow> Inr (Some (roll_rows ticker_prices df))))"

text \<open>
  Lines 183-190 of \<^verbatim>\<open>run_daily_update\<close>: discover the new tickers, fetch their prices, append.
\<close>

definition append_new_tickers ::
  "(nat \<Rightarrow> string \<Rightarrow> py_error + 'a option) \<Rightarrow> string option list option \<Rightarrow> bool \<Rightarrow> int
     \<Rightarrow> 'a::zero store \<Rightarrow> py_error + 'a store" where
  "append_new_tickers get_price working test_mode test_limit csv =
     (let new_tickers =
            (if test_mode then get_new_tickers_from_working_rolling working (Some test_limit) csv
             else get_new_tickers_from_working_rolling working None csv)
      in if new_tickers \<noteq> [] then
           (case fetch_prices_for_tickers get_price new_tickers of
              Inl e \<Rightarrow> Inl e
            | Inr new_ticker_prices \<Rightarrow>
                if new_ticker_prices \<noteq> [] then Inr (update_csv_with_new_tickers new_ticker_prices csv)
                else Inr csv)
         else Inr csv)"

text \<open>
  \<^verbatim>\<open>run_daily_update\<close>: the append stage, then the roll when the store had tickers at the
  start of the run. The two batches of fetches have their own results.
\<close>

definition run_daily_update ::
  "(nat \<Rightarrow> string \<Rightarrow> py_error + 'a option) \<Rightarrow> (nat \<Rightarrow> string \<Rightarrow> py_error + 'a option)
     \<Rightarrow> string option list option \<Rightarrow> bool \<Rightarrow> int \<Rightarrow> 'a::{minus,zero} store \<Rightarrow> py_error + 'a store" where
  "run_daily_update get_price_new get_price_roll working test_mode test_limit csv =
     (let existing_tickers_before = load_existing_tickers csv
      in case append_new_tickers get_price_new working test_mode test_limit csv of
           Inl e \<Rightarrow> Inl e
         | Inr csv1 \<Rightarrow>
             if existing_tickers_before \<noteq> [] then roll_prices_for_existing_tickers get_price_roll csv1
             else Inr csv1)"

section \<open>The price snapshot fetch (PolygonPriceFetcher.get_ticker_price)\<close>

text \<open>
  Python values as \<^verbatim>\<open>json.loads\<close>, \<^verbatim>\<open>response.json()\<close> and \<^verbatim>\<open>ast.literal_eval\<close> build them.
  Numbers are values of the open number type (Python compares \<^verbatim>\<open>1\<close> and \<^verbatim>\<open>1.0\<close> equal); a
  dictionary is the list of its items in insertion order, with distinct keys; \<open>POther\<close> stands
  for the remaining literals (bytes, complex numbers).
\<close>

datatype 'a pyval =
  PNone
| PBool bool
| PNum 'a
| PStr string
| PList "'a pyval list"
| PTuple "'a pyval list"
| PDict "('a pyval \<times> 'a pyval) list"
| PSet "'a pyval list"
| POther

text \<open>\<^verbatim>\<open>p in s\<close> for two strings: \<open>p\<close> occurs in \<open>s\<close> as a contiguous piece.\<close>

fun is_substring :: "string \<Rightarrow> string \<Rightarrow> bool" where
  "is_substring p [] = (p = [])"
| "is_substring p (c # cs) = (take (length p) (c # cs) = p \<or> is_substring p cs)"

text \<open>\<^verbatim>\<open>'k' in v\<close>: a key of a dictionary, a piece of a string, a member of a sequence.\<close>

definition py_in :: "string \<Rightarrow> 'a pyval \<Rightarrow> py_error + bool" where
  "py_in k v =
     (case v of
        PDict items \<Rightarrow> Inr (PStr k \<in> fst ` set items)
      | PStr s \<Rightarrow> Inr (is_substring k s)
      | PList xs \<Rightarrow> Inr (PStr k \<in> set xs)
      | PTuple xs \<Rightarrow> Inr (PStr k \<in> set xs)
      | PSet xs \<Rightarrow> Inr (PStr k \<in> set xs)
      | _ \<Rightarrow> Inl TypeError)"

text \<open>\<^verbatim>\<open>v['k']\<close>: only a dictionary can be indexed by a string.\<close>

definition py_getitem :: "'a pyval \<Rightarrow> string \<Rightarrow> py_error + 'a pyval" where
  "py_getitem v k =
     (case v of
        PDict items \<Rightarrow> (case map_of items (PStr k) of Some x \<Rightarrow> Inr x | None \<Rightarrow> Inl KeyError)
      | _ \<Rightarrow> Inl TypeError)"

text \<open>\<^verbatim>\<open>data.get('status')\<close>: only a dictionary has \<^verbatim>\<open>get\<close>; a missing key gives \<^verbatim>\<open>None\<close>.\<close>

definition py_get :: "'a pyval \<Rightarrow> string \<Rightarrow> py_error + 'a pyval" where
  "py_get v k =
     (case v of
        PDict items \<Rightarrow> (case map_of items (PStr k) of Some x \<Rightarrow> Inr x | None \<Rightarrow> Inr PNone)
      | _ \<Rightarrow> Inl AttributeError)"

text \<open>
  \<^verbatim>\<open>float(v)\<close>. \<open>float_of_str\<close> is Python's reading of a string as a float, \<open>None\<close> where it
  raises \<^verbatim>\<open>ValueError\<close>. Numbers are taken to be in the range of a float.
\<close>

definition py_float :: "(string \<Rightarrow> 'a option) \<Rightarrow> 'a::{zero,one} pyval \<Rightarrow> py_error + 'a" where
  "py_float float_of_str v =
     (case v of
        PNum x \<Rightarrow> Inr x
      | PBool b \<Rightarrow> Inr (if b then 1 else 0)
      | PStr s \<Rightarrow> (case float_of_str s of Some x \<Rightarrow> Inr x | None \<Rightarrow> Inl ValueError)
      | _ \<Rightarrow> Inl TypeError)"

text \<open>\<^verbatim>\<open>'bar' in ticker_data and 'c' in ticker_data['bar']\<close>, for \<^verbatim>\<open>bar\<close> one of min, day.\<close>

definition has_close :: "string \<Rightarrow> 'a pyval \<Rightarrow> py_error + bool" where
  "has_close bar ticker_data =
     (case py_in bar ticker_data of
        Inl e \<Rightarrow> Inl e
      | Inr False \<Rightarrow> Inr False
      | Inr True \<Rightarrow>
          (case py_getitem ticker_data bar of
             Inl e \<Rightarrow> Inl e
           | Inr b \<Rightarrow> py_in ''c'' b))"

text \<open>\<^verbatim>\<open>float(ticker_data['bar']['c'])\<close>.\<close>

definition close_of :: "(string \<Rightarrow> 'a option) \<Rightarrow> string \<Rightarrow> 'a::{zero,one} pyval \<Rightarrow> py_error + 'a" where
  "close_of float_of_str bar ticker_data =
     (case py_getitem ticker_data bar of
        Inl e \<Rightarrow> Inl e
      | Inr b \<Rightarrow>
          (case py_getitem b ''c'' of
             Inl e \<Rightarrow> Inl e
           | Inr c \<Rightarrow> py_float float_of_str c))"

text \<open>
  What one \<^verbatim>\<open>session.get\<close> comes to: it raises a \<^verbatim>\<open>RequestException\<close> (no connection, a
  timeout), or there is a response with a status code and a body; the body is \<open>None\<close> when
  \<^verbatim>\<open>response.json()\<close> cannot decode it (the exception requests raises then is a
  \<^verbatim>\<open>RequestException\<close>).
\<close>

datatype 'a http_outcome = RequestFailed | Response int "'a pyval option"

text \<open>Lines 26-35: the decoded body to a price, \<^verbatim>\<open>None\<close>, or an exception.\<close>

definition price_of_data :: "(string \<Rightarrow> 'a option) \<Rightarrow> 'a::{zero,one} pyval \<Rightarrow> py_error + 'a option" where
  "price_of_data float_of_str data =
     (case py_get data ''status'' of
        Inl e \<Rightarrow> Inl e
      | Inr status \<Rightarrow>
          if status = PStr ''OK'' \<and> py_in ''ticker'' data = Inr True then
            (case py_getitem data ''ticker'' of
               Inl e \<Rightarrow> Inl e
             | Inr ticker_data \<Rightarrow>
                 (case has_close ''min'' ticker_data of
                    Inl e \<Rightarrow> Inl e
                  | Inr True \<Rightarrow> map_sum id Some (close_of float_of_str ''min'' ticker_data)
                  | Inr False \<Rightarrow>
                      (case has_close ''day'' ticker_data of
                         Inl e \<Rightarrow> Inl e
                       | Inr True \<Rightarrow> map_sum id Some (close_of float_of_str ''day'' ticker_data)
                       | Inr False \<Rightarrow> Inr None)))
          else Inr None)"

text \<open>Lines 21-35, the body of the \<^verbatim>\<open>try\<close>: \<open>Inr\<close> is a \<^verbatim>\<open>return\<close>, \<open>Inl\<close> an exception.\<close>

definition try_body :: "(string \<Rightarrow> 'a option) \<Rightarrow> 'a::{zero,one} http_outcome \<Rightarrow> py_error + 'a option" where
  "try_body float_of_str outcome =
     (case outcome of
        RequestFailed \<Rightarrow> Inl RequestException
      | Response status_code body \<Rightarrow>
          if status_code = 404 then Inr None
          else if 400 \<le> status_code \<and> status_code < 600 then Inl RequestException
          else (case body of
                  None \<Rightarrow> Inl RequestException
                | Some data \<Rightarrow> price_of_data float_of_str data))"

text \<open>
  The loop \<^verbatim>\<open>for attempt in range(max_retries)\<close>. \<open>net k\<close> is the outcome of the request
  number \<open>k\<close> of this call. The result comes with the number of requests sent. Both
  \<^verbatim>\<open>except\<close> clauses return, as every path of the \<^verbatim>\<open>try\<close> does, so no equation goes on
  to a next attempt; the first equation is the \<^verbatim>\<open>return None\<close> after the loop.
\<close>

fun get_ticker_price_from ::
  "(string \<Rightarrow> 'a option) \<Rightarrow> (nat \<Rightarrow> 'a::{zero,one} http_outcome) \<Rightarrow> nat \<Rightarrow> nat
     \<Rightarrow> (py_error + 'a option) \<times> nat" where
  "get_ticker_price_from float_of_str net attempt 0 = (Inr None, attempt)"
| "get_ticker_price_from float_of_str net attempt (Suc remaining) =
     (case try_body float_of_str (net attempt) of
        Inr r \<Rightarrow> (Inr r, Suc attempt)
      | Inl e \<Rightarrow>
          if e = RequestException then (Inr None, Suc attempt)
          else if e = ValueError \<or> e = KeyError then (Inr None, Suc attempt)
          else (Inl e, Suc attempt))"

definition get_ticker_price ::
  "(string \<Rightarrow> 'a option) \<Rightarrow> (nat \<Rightarrow> 'a::{zero,one} http_outcome) \<Rightarrow> int
     \<Rightarrow> (py_error + 'a option) \<times> nat" where
  "get_ticker_price float_of_str net max_retries =
     get_ticker_price_from float_of_str net 0 (nat max_retries)"

section \<open>Deduplication by ticker (DailyScriptPuller.update_rolling_data, lines 326-336)\<close>

text \<open>
  A field of the column \<^verbatim>\<open>filedAt\<close>: a string as read from the file, a timestamp, or
  \<^verbatim>\<open>NaT\<close> (also the missing value). \<^verbatim>\<open>pd.to_datetime(..., errors='coerce')\<close> turns a string
  into a timestamp or into \<^verbatim>\<open>NaT\<close> and leaves the other two alone; \<open>parse\<close> is its reading of
  a string.
\<close>

datatype filed_cell = Raw string | Stamp int | NaT

definition to_datetime :: "(string \<Rightarrow> int option) \<Rightarrow> filed_cell \<Rightarrow> filed_cell" where
  "to_datetime parse c =
     (case c of
        Raw s \<Rightarrow> (case parse s of Some n \<Rightarrow> Stamp n | None \<Rightarrow> NaT)
      | Stamp n \<Rightarrow> Stamp n
      | NaT \<Rightarrow> NaT)"

text \<open>
  A row of the rolling table: its \<^verbatim>\<open>ticker\<close> (\<open>None\<close> for NaN), its \<^verbatim>\<open>filedAt\<close> and the
  other columns. The frame records which of the two columns it has; \<open>filedAt\<close> of a row
  means nothing in a frame without that column.
\<close>

record 'p rolling_row =
  ticker_cell :: "string option"
  filedAt :: filed_cell
  payload :: 'p

record 'p frame =
  has_ticker :: bool
  has_filedAt :: bool
  frame_rows :: "'p rolling_row list"

text \<open>
  \<^verbatim>\<open>sort_values(['ticker', 'filedAt'], ascending=[True, False])\<close>: a stable sort, tickers
  ascending, timestamps descending, and in both columns the missing values last.
\<close>

definition ticker_rank :: "string option \<Rightarrow> bool \<times> string" where
  "ticker_rank t = (case t of Some s \<Rightarrow> (False, s) | None \<Rightarrow> (True, []))"

definition filed_rank :: "filed_cell \<Rightarrow> bool \<times> int" where
  "filed_rank c = (case c of Stamp n \<Rightarrow> (False, - n) | _ \<Rightarrow> (True, 0))"

definition sort_rank :: "'p rolling_row \<Rightarrow> (bool \<times> string) \<times> (bool \<times> int)" where
  "sort_rank r = (ticker_rank (ticker_cell r), filed_rank (filedAt r))"

definition sort_values :: "'p rolling_row list \<Rightarrow> 'p rolling_row list" where
  "sort_values df = sort_key sort_rank df"

text \<open>
  \<^verbatim>\<open>duplicated(subset=[...], keep='first')\<close> marks a row whose key an earlier row has (two
  missing keys count as equal); \<^verbatim>\<open>drop_duplicates\<close> removes the marked rows.
\<close>

fun duplicated_seen :: "('r \<Rightarrow> 'k) \<Rightarrow> 'k list \<Rightarrow> 'r list \<Rightarrow> bool list" where
  "duplicated_seen key seen [] = []"
| "duplicated_seen key seen (r # rs) = (key r \<in> set seen) # duplicated_seen key (key r # seen) rs"

fun drop_duplicates_seen :: "('r \<Rightarrow> 'k) \<Rightarrow> 'k list \<Rightarrow> 'r list \<Rightarrow> 'r list" where
  "drop_duplicates_seen key seen [] = []"
| "drop_duplicates_seen key seen (r # rs) =
     (if key r \<in> set seen then drop_duplicates_seen key seen rs
      else r # drop_duplicates_seen key (key r # seen) rs)"

definition duplicated :: "('r \<Rightarrow> 'k) \<Rightarrow> 'r list \<Rightarrow> bool list" where
  "duplicated key df = duplicated_seen key [] df"

definition drop_duplicates :: "('r \<Rightarrow> 'k) \<Rightarrow> 'r list \<Rightarrow> 'r list" where
  "drop_duplicates key df = drop_duplicates_seen key [] df"

text \<open>The three lines that count the duplicates and drop them when there are any.\<close>

definition drop_if_duplicated :: "('r \<Rightarrow> 'k) \<Rightarrow> 'r list \<Rightarrow> 'r list" where
  "drop_if_duplicated key df =
     (let duplicate_count = length (filter (\<lambda>d. d) (duplicated key df))
      in if duplicate_count > 0 then drop_duplicates key df else df)"

text \<open>Line 328: the column \<^verbatim>\<open>filedAt\<close> is replaced by its conversion.\<close>

definition filedAt_to_datetime :: "(string \<Rightarrow> int option) \<Rightarrow> 'p rolling_row list \<Rightarrow> 'p rolling_row list" where
  "filedAt_to_datetime parse df = map (\<lambda>r. r\<lparr>filedAt := to_datetime parse (filedAt r)\<rparr>) df"

text \<open>Lines 326-336.\<close>

definition deduplicate :: "(string \<Rightarrow> int option) \<Rightarrow> 'p frame \<Rightarrow> 'p frame" where
  "deduplicate parse combined_df =
     (if has_ticker combined_df then
        if has_filedAt combined_df then
          (let converted = filedAt_to_datetime parse (frame_rows combined_df);
               sorted_df = sort_values converted
           in combined_df\<lparr>frame_rows := drop_if_duplicated ticker_cell sorted_df\<rparr>)
        else combined_df\<lparr>frame_rows := drop_if_duplicated ticker_cell (frame_rows combined_df)\<rparr>
      else combined_df)"

section \<open>Ticker extraction and merge (DailyScriptPuller.combine_sec_and_yahoo_data)\<close>



















section \<open>Concrete inputs\<close>

text \<open>
  A stored row with prices in the slots 6 and 7 days ago only: yesterday's closing price 9,
  the price 5 seven days before it, the price 7 six days before it.
\<close>

definition week_example :: "real price_row" where
  "week_example =
     \<lparr>ticker = ''AAA'',
      days_ago = (\<lambda>i. if i = 7 then Some 5 else if i = 6 then Some 7 else None),
      Today_price = Some 9, Day_move = Some 0, Week_move = Some 0, Month_move = Some 0\<rparr>"

text \<open>
  A body as the snapshot endpoint sends it for a known ticker, with the closing price 12.5
  in the minute bar; and a network on which the first request of a call fails and every
  later one is answered with that body.
\<close>

definition snapshot_body :: "real pyval" where
  "snapshot_body =
     PDict [(PStr ''status'', PStr ''OK''),
            (PStr ''ticker'', PDict [(PStr ''min'', PDict [(PStr ''c'', PNum (25 / 2))])])]"

definition flaky_net :: "nat \<Rightarrow> real http_outcome" where
  "flaky_net k = (if k = 0 then RequestFailed else Response 200 (Some snapshot_body))"

text \<open>
  A rolling table with two filings for one ticker and one for another, and a reading of
  their dates as day numbers.
\<close>

definition filings_example :: "nat frame" where
  "filings_example =
     \<lparr>has_ticker = True, has_filedAt = True,
      frame_rows =
        [\<lparr>ticker_cell = Some ''BBB'', filedAt = Raw ''2024-01-01'', payload = 1\<rparr>,
         \<lparr>ticker_cell = Some ''AAA'', filedAt = Raw ''2024-01-05'', payload = 2\<rparr>,
         \<lparr>ticker_cell = Some ''AAA'', filedAt = Raw ''2024-02-01'', payload = 3\<rparr>]\<rparr>"

definition day_number :: "string \<Rightarrow> int option" where
  "day_number s =
     (if s = ''2024-01-01'' then Some 1
      else if s = ''2024-01-05'' then Some 5
      else if s = ''2024-02-01'' then Some 32
      else None)"









text \<open>A store with the one ticker \<^verbatim>\<open>AAA\<close> at the price 10.\<close>

definition store_example :: "real store" where
  "store_example = Some [row_data ''AAA'' 10]"

section \<open>Properties of the rolling price store\<close>

subsection \<open>The roll of one row\<close>

lemma foldl_fun_upd_apply:
  "foldl (\<lambda>d i. d(i := g i)) d0 xs j = (if j \<in> set xs then g j else d0 j)"
  by (induction xs arbitrary: d0) auto

text \<open>The loop over the slots as one step: slot 1 takes today's price, slot \<open>j\<close> takes slot \<open>j - 1\<close>.\<close>

lemma days_ago_roll_row:
  "days_ago (roll_row p row) j =
     (if j = 1 then Today_price row
      else if 2 \<le> j \<and> j \<le> 31 then days_ago row (j - 1)
      else days_ago row j)"
proof -
  have "j \<in> set (rev [2..<32]) \<longleftrightarrow> 2 \<le> j \<and> j \<le> 31"
    unfolding set_rev set_upt by auto
  then show ?thesis
    unfolding roll_row_def Let_def by (simp add: foldl_fun_upd_apply del: upt_rec_numeral)
qed

lemma Today_price_roll_row: "Today_price (roll_row p row) = Some p"
  by (simp add: roll_row_def Let_def)

lemma ticker_roll_row: "ticker (roll_row p row) = ticker row"
  by (simp add: roll_row_def Let_def)

lemma moves_roll_row:
  "Day_move (roll_row p row) = Some (move_from p (Today_price row))"
  "Week_move (roll_row p row) = Some (move_from p (days_ago row 7))"
  "Month_move (roll_row p row) = Some (move_from p (days_ago row 30))"
  by (simp_all add: roll_row_def Let_def)

text \<open>
  Read in the row that results, the day move is against slot 1, the week move against
  slot 8 and the month move against slot 31: the baselines are taken before the shift.
\<close>

lemma moves_in_rolled_row:
  "Day_move (roll_row p row) = Some (move_from p (days_ago (roll_row p row) 1))"
  "Week_move (roll_row p row) = Some (move_from p (days_ago (roll_row p row) 8))"
  "Month_move (roll_row p row) = Some (move_from p (days_ago (roll_row p row) 31))"
  by (simp_all add: moves_roll_row days_ago_roll_row)

subsection \<open>The roll of the table\<close>

lemma map_ticker_roll_rows: "map ticker (roll_rows prices df) = map ticker df"
  by (induction df) (auto simp: roll_rows_def ticker_roll_row split: option.splits)

lemma length_roll_rows: "length (roll_rows prices df) = length df"
  by (simp add: roll_rows_def)

lemma nth_roll_rows:
  "i < length df \<Longrightarrow> roll_rows prices df ! i =
     (case map_of prices (ticker (df ! i)) of Some p \<Rightarrow> roll_row p (df ! i) | None \<Rightarrow> df ! i)"
  by (simp add: roll_rows_def)

lemma roll_prices_Some:
  "fetch_prices_for_tickers get_price (map ticker df) = Inr prices \<Longrightarrow>
   roll_prices_for_existing_tickers get_price (Some df) = Inr (Some (roll_rows prices df))"
  by (simp add: roll_prices_for_existing_tickers_def)

text \<open>
  C1. Two rolls in a row, the first with the fetched price \<open>p1\<close> for the ticker of row \<open>i\<close>,
  the second with \<open>p2\<close>: both runs write the table, and in row \<open>i\<close> of the result the slot
  2 days ago holds the price that was today's at the start, the slot 1 day ago holds \<open>p1\<close>,
  and today's price is \<open>p2\<close>.
\<close>

theorem roll_twice_shifts:
  fixes df :: "('a::{minus,zero}) price_row list"
  assumes "i < length df"
    and "fetch_prices_for_tickers get_price1 (map ticker df) = Inr prices1"
    and "map_of prices1 (ticker (df ! i)) = Some p1"
    and "fetch_prices_for_tickers get_price2 (map ticker df) = Inr prices2"
    and "map_of prices2 (ticker (df ! i)) = Some p2"
  shows "\<exists>df1 df2.
           roll_prices_for_existing_tickers get_price1 (Some df) = Inr (Some df1)
         \<and> roll_prices_for_existing_tickers get_price2 (Some df1) = Inr (Some df2)
         \<and> length df2 = length df
         \<and> ticker (df2 ! i) = ticker (df ! i)
         \<and> days_ago (df2 ! i) 2 = Today_price (df ! i)
         \<and> days_ago (df2 ! i) 1 = Some p1
         \<and> Today_price (df2 ! i) = Some p2"
proof -
  let ?df1 = "roll_rows prices1 df"
  let ?df2 = "roll_rows prices2 ?df1"
  have r1: "roll_prices_for_existing_tickers get_price1 (Some df) = Inr (Some ?df1)"
    using assms(2) by (rule roll_prices_Some)
  have "fetch_prices_for_tickers get_price2 (map ticker ?df1) = Inr prices2"
    using assms(4) by (simp add: map_ticker_roll_rows)
  then have r2: "roll_prices_for_existing_tickers get_price2 (Some ?df1) = Inr (Some ?df2)"
    by (rule roll_prices_Some)
  have row1: "?df1 ! i = roll_row p1 (df ! i)"
    using assms(1,3) by (simp add: nth_roll_rows)
  have row2: "?df2 ! i = roll_row p2 (roll_row p1 (df ! i))"
    using assms(1,5) by (simp add: nth_roll_rows length_roll_rows row1 ticker_roll_row)
  have "length ?df2 = length df"
    by (simp add: length_roll_rows)
  moreover have "ticker (?df2 ! i) = ticker (df ! i)"
    by (simp add: row2 ticker_roll_row)
  moreover have "days_ago (?df2 ! i) 2 = Today_price (df ! i)"
    by (simp add: row2 days_ago_roll_row)
  moreover have "days_ago (?df2 ! i) 1 = Some p1"
    by (simp add: row2 days_ago_roll_row Today_price_roll_row)
  moreover have "Today_price (?df2 ! i) = Some p2"
    by (simp add: row2 Today_price_roll_row)
  ultimately show ?thesis
    using r1 r2 by blast
qed

theorem roll_twice_shifts_witness:
  "\<exists>df1 df2.
      roll_prices_for_existing_tickers (\<lambda>i t. Inr (Some 13)) (Some [row_data ''XYZ'' (25 / 2 :: real)])
        = Inr (Some df1)
    \<and> roll_prices_for_existing_tickers (\<lambda>i t. Inr (Some 14)) (Some df1) = Inr (Some df2)
    \<and> length df2 = 1
    \<and> ticker (df2 ! 0) = ''XYZ''
    \<and> days_ago (df2 ! 0) 2 = Some (25 / 2)
    \<and> days_ago (df2 ! 0) 1 = Some 13
    \<and> Today_price (df2 ! 0) = Some 14"
  using roll_twice_shifts [where df = "[row_data ''XYZ'' (25 / 2 :: real)]" and i = 0
      and ?get_price1.0 = "\<lambda>i t. Inr (Some 13)" and ?get_price2.0 = "\<lambda>i t. Inr (Some 14)"
      and ?prices1.0 = "[(''XYZ'', 13)]" and ?prices2.0 = "[(''XYZ'', 14)]" and ?p1.0 = 13 and ?p2.0 = 14]
  by (simp add: fetch_prices_for_tickers_def row_data_def)

text \<open>
  C2, at a concrete input. The stored row \<open>week_example\<close> is rolled with the fetched price
  10. In the row written, today's price is 10 and the slot 7 days ago holds 7, so the week
  move against that slot would be 3; the week move written is 5, the difference to the
  slot that is now 8 days ago.
\<close>

theorem week_move_uses_slot_8:
  "map_sum id (map_option (map (\<lambda>r. (Today_price r, days_ago r 7, days_ago r 8, Week_move r))))
     (roll_prices_for_existing_tickers (\<lambda>i t. Inr (Some 10)) (Some [week_example]))
   = Inr (Some [(Some 10, Some 7, Some 5, Some 5)])"
  by (simp add: roll_prices_for_existing_tickers_def fetch_prices_for_tickers_def roll_rows_def
      week_example_def moves_roll_row days_ago_roll_row Today_price_roll_row move_from_def)

subsection \<open>Frame and ticker set\<close>

text \<open>
  C4. A row whose ticker is not in the dictionary of fetched prices (its fetch gave
  \<^verbatim>\<open>None\<close>) is written back as it was read: the whole row, so each of its 32 price slots
  and its three moves.
\<close>

theorem roll_leaves_unfetched_row:
  fixes df :: "('a::{minus,zero}) price_row list"
  assumes "i < length df"
    and "fetch_prices_for_tickers get_price (map ticker df) = Inr ticker_prices"
    and "map_of ticker_prices (ticker (df ! i)) = None"
  shows "\<exists>df'. roll_prices_for_existing_tickers get_price (Some df) = Inr (Some df')
           \<and> length df' = length df \<and> df' ! i = df ! i"
proof -
  have "roll_prices_for_existing_tickers get_price (Some df) = Inr (Some (roll_rows ticker_prices df))"
    using assms(2) by (rule roll_prices_Some)
  moreover have "roll_rows ticker_prices df ! i = df ! i"
    using assms(1,3) by (simp add: nth_roll_rows)
  ultimately show ?thesis
    by (simp add: length_roll_rows)
qed

theorem roll_leaves_unfetched_row_witness:
  "\<exists>df'. roll_prices_for_existing_tickers
            (\<lambda>i t. if t = ''AAA'' then Inr (Some 11) else Inr None)
            (Some [row_data ''AAA'' (10 :: real), row_data ''BBB'' 20]) = Inr (Some df')
         \<and> length df' = 2 \<and> df' ! 1 = row_data ''BBB'' 20"
proof -
  let ?df = "[row_data ''AAA'' (10 :: real), row_data ''BBB'' 20]"
  let ?get = "\<lambda>(i :: nat) t. if t = ''AAA'' then Inr (Some (11 :: real)) else (Inr None :: py_error + real option)"
  have a: "1 < length ?df"
    by simp
  have b: "fetch_prices_for_tickers ?get (map ticker ?df) = Inr [(''AAA'', 11)]"
    by (simp add: fetch_prices_for_tickers_def row_data_def)
  have c: "map_of [(''AAA'', 11 :: real)] (ticker (?df ! 1)) = None"
    by (simp add: row_data_def)
  show ?thesis
    using roll_leaves_unfetched_row [OF a b c] by (simp add: numeral_2_eq_2)
qed

lemma dom_fetch_prices_from:
  "fetch_prices_from get_price i ts acc = Inr prices \<Longrightarrow> map_of prices t = Some p \<Longrightarrow>
   map_of acc t = Some p \<or> (\<exists>j. get_price j t = Inr (Some p))"
proof (induction ts arbitrary: i acc)
  case Nil
  then show ?case by simp
next
  case (Cons a ts)
  show ?case
  proof (cases "get_price i a")
    case (Inl e)
    with Cons.prems show ?thesis by simp
  next
    case (Inr r)
    show ?thesis
    proof (cases r)
      case None
      with Inr Cons show ?thesis by simp
    next
      case (Some q)
      with Inr Cons.prems have "fetch_prices_from get_price (Suc i) ts (AList.update a q acc) = Inr prices"
        by simp
      from Cons.IH [OF this Cons.prems(2)]
      show ?thesis
        using Inr Some by (auto simp: update_conv' split: if_splits)
    qed
  qed
qed

text \<open>A ticker all of whose fetches gave \<^verbatim>\<open>None\<close> is not in the dictionary.\<close>

lemma failed_fetch_not_in_prices:
  assumes "fetch_prices_for_tickers get_price ts = Inr prices"
    and "\<And>j. get_price j t = Inr None"
  shows "map_of prices t = None"
proof (rule ccontr)
  assume "map_of prices t \<noteq> None"
  then obtain p where "map_of prices t = Some p" by auto
  from dom_fetch_prices_from [OF assms(1) [unfolded fetch_prices_for_tickers_def] this]
  show False using assms(2) by simp
qed

text \<open>
  C10. Whatever the fetches give, a roll that writes the table writes the same tickers in
  the same rows: the ticker column (its values, their number, their order) is as before,
  and there is a file after the roll exactly when there was one before.
\<close>

theorem roll_keeps_tickers:
  fixes csv :: "('a::{minus,zero}) store"
  assumes "roll_prices_for_existing_tickers get_price csv = Inr csv'"
  shows "map_option (map ticker) csv' = map_option (map ticker) csv
       \<and> load_existing_tickers csv' = load_existing_tickers csv"
proof (cases csv)
  case None
  with assms show ?thesis
    by (simp add: roll_prices_for_existing_tickers_def)
next
  case (Some df)
  with assms obtain prices where "csv' = Some (roll_rows prices df)"
    by (auto simp: roll_prices_for_existing_tickers_def split: sum.splits)
  with Some show ?thesis
    by (simp add: load_existing_tickers_def map_ticker_roll_rows)
qed

theorem roll_keeps_tickers_witness:
  "map_option (map ticker) (Some (roll_rows [(''AAA'', 11)] [row_data ''AAA'' (10 :: real), row_data ''BBB'' 20]))
     = Some [''AAA'', ''BBB'']
   \<and> load_existing_tickers (Some (roll_rows [(''AAA'', 11)] [row_data ''AAA'' (10 :: real), row_data ''BBB'' 20]))
     = [''AAA'', ''BBB'']"
  using roll_keeps_tickers [where csv = "Some [row_data ''AAA'' (10 :: real), row_data ''BBB'' 20]"
      and get_price = "\<lambda>i t. if t = ''AAA'' then Inr (Some 11) else Inr None"
      and csv' = "Some (roll_rows [(''AAA'', 11)] [row_data ''AAA'' (10 :: real), row_data ''BBB'' 20])"]
  by (simp add: roll_prices_for_existing_tickers_def fetch_prices_for_tickers_def
      load_existing_tickers_def row_data_def)

text \<open>The only way for the roll not to write is an exception out of a fetch.\<close>

lemma roll_returns:
  assumes "\<And>i t. \<exists>r. get_price i t = Inr r"
  shows "\<exists>csv'. roll_prices_for_existing_tickers get_price csv = Inr csv'"
proof -
  have "\<exists>prices. fetch_prices_from get_price i ts acc = Inr prices" for i ts acc
  proof (induction ts arbitrary: i acc)
    case Nil
    show ?case by simp
  next
    case (Cons a ts)
    obtain r where "get_price i a = Inr r"
      using assms by blast
    then show ?case
      using Cons.IH by (cases r) simp_all
  qed
  then have fetch: "\<exists>prices. fetch_prices_for_tickers get_price ts = Inr prices" for ts
    by (simp add: fetch_prices_for_tickers_def)
  show ?thesis
  proof (cases csv)
    case None
    then show ?thesis
      by (simp add: roll_prices_for_existing_tickers_def)
  next
    case (Some df)
    obtain prices where "fetch_prices_for_tickers get_price (map ticker df) = Inr prices"
      using fetch by blast
    with Some show ?thesis
      by (simp add: roll_prices_Some)
  qed
qed

subsection \<open>Appending\<close>

lemma no_new_tickers:
  assumes "\<And>t. Some t \<in> set df_working \<Longrightarrow> t \<in> set (load_existing_tickers csv)"
  shows "get_new_tickers_from_working_rolling (Some df_working) limit csv = []"
proof -
  have "filter (\<lambda>t. t \<notin> set (load_existing_tickers csv))
          (map the (filter (\<lambda>c. c \<noteq> None) df_working)) = []"
    using assms by (auto simp: filter_empty_conv)
  then show ?thesis
    by (simp add: get_new_tickers_from_working_rolling_def Let_def slice_to_def split: option.splits)
qed

text \<open>
  The discovery filters out a ticker that the store has, so the append stage of a run that
  is offered this ticker fetches nothing and returns the store as it was.
\<close>

lemma discovery_filters_stored_ticker:
  fixes csv :: "('a::zero) store"
  assumes "t \<in> set (load_existing_tickers csv)"
  shows "append_new_tickers get_price (Some [Some t]) test_mode test_limit csv = Inr csv"
proof -
  have "get_new_tickers_from_working_rolling (Some [Some t]) limit csv = []" for limit
    using assms by (intro no_new_tickers) simp
  then show ?thesis
    by (simp add: append_new_tickers_def)
qed

text \<open>
  The check is in the discovery alone: \<^verbatim>\<open>update_csv_with_new_tickers\<close> appends a row for every
  entry it is given, also for a ticker the store has.
\<close>

lemma update_csv_appends:
  "update_csv_with_new_tickers [(t, p)] (Some df) = Some (df @ [row_data t p])"
  by (simp add: update_csv_with_new_tickers_def)

text \<open>
  C3, as the code has it. For a ticker \<open>t\<close> that the store has, \<^verbatim>\<open>update_csv_with_new_tickers\<close>
  with the price \<open>p\<close> leaves every row of the store as it was, the row of \<open>t\<close> among them,
  and adds one row for \<open>t\<close> at the end; it makes no test whether the ticker is there. What
  keeps a stored ticker from being appended is the discovery: the append stage of a run
  offered \<open>t\<close> returns the store unchanged.
\<close>

theorem append_keeps_existing_rows:
  fixes csv :: "('a::zero) store"
  assumes "t \<in> set (load_existing_tickers csv)"
  shows "\<exists>df df'. csv = Some df
         \<and> update_csv_with_new_tickers [(t, p)] csv = Some df'
         \<and> length df' = Suc (length df)
         \<and> take (length df) df' = df
         \<and> df' ! length df = row_data t p
         \<and> append_new_tickers get_price (Some [Some t]) test_mode test_limit csv = Inr csv"
proof -
  obtain df where df: "csv = Some df"
    using assms by (cases csv) (simp_all add: load_existing_tickers_def)
  have "update_csv_with_new_tickers [(t, p)] csv = Some (df @ [row_data t p])"
    unfolding df by (rule update_csv_appends)
  moreover have "append_new_tickers get_price (Some [Some t]) test_mode test_limit csv = Inr csv"
    using assms by (rule discovery_filters_stored_ticker)
  ultimately show ?thesis
    using df by simp
qed

theorem append_keeps_existing_rows_witness:
  "\<exists>df df'. store_example = Some df
     \<and> update_csv_with_new_tickers [(''AAA'', 99)] store_example = Some df'
     \<and> length df' = Suc (length df)
     \<and> take (length df) df' = df
     \<and> df' ! length df = row_data ''AAA'' 99
     \<and> append_new_tickers (\<lambda>i t. Inr (Some 99)) (Some [Some ''AAA'']) False 100 store_example
          = Inr store_example"
proof -
  have "''AAA'' \<in> set (load_existing_tickers store_example)"
    by (simp add: load_existing_tickers_def store_example_def row_data_def)
  then show ?thesis
    by (rule append_keeps_existing_rows)
qed

text \<open>
  Against C3 as it is written: the store has \<^verbatim>\<open>AAA\<close> at 10; appending \<^verbatim>\<open>AAA\<close> with 99 gives a
  store of two rows, which is not the store before.
\<close>

theorem append_existing_adds_row:
  "update_csv_with_new_tickers [(''AAA'', 99)] store_example
     = Some [row_data ''AAA'' 10, row_data ''AAA'' 99]
   \<and> update_csv_with_new_tickers [(''AAA'', 99)] store_example \<noteq> store_example"
  by (simp add: update_csv_with_new_tickers_def store_example_def)

lemma new_single_ticker:
  assumes "t \<notin> set (load_existing_tickers csv)"
    and "limit = None \<or> (\<exists>k. limit = Some k \<and> 0 \<le> k)"
  shows "get_new_tickers_from_working_rolling (Some [Some t]) limit csv = [t]"
  using assms
  by (auto simp: get_new_tickers_from_working_rolling_def Let_def slice_to_def)

text \<open>
  C5. A ticker \<open>t\<close> that the store does not have, offered to the append stage with the
  fetched price \<open>p\<close>: the store afterwards is the store before with one row more, at the
  end; in that row the 31 slots of earlier days are empty, today's price is \<open>p\<close> and the
  three moves are 0. (In test mode the limit must not be negative.)
\<close>

theorem append_new_ticker_row:
  fixes csv :: "('a::zero) store"
  assumes "t \<notin> set (load_existing_tickers csv)"
    and "get_price 0 t = Inr (Some p)"
    and "test_mode \<longrightarrow> 0 \<le> test_limit"
  shows "append_new_tickers get_price (Some [Some t]) test_mode test_limit csv
           = Inr (Some ((case csv of Some df \<Rightarrow> df | None \<Rightarrow> []) @ [row_data t p]))
       \<and> ticker (row_data t p) = t
       \<and> (\<forall>i. days_ago (row_data t p) i = None)
       \<and> Today_price (row_data t p) = Some p
       \<and> Day_move (row_data t p) = Some 0
       \<and> Week_move (row_data t p) = Some 0
       \<and> Month_move (row_data t p) = Some 0"
proof -
  have new: "(if test_mode then get_new_tickers_from_working_rolling (Some [Some t]) (Some test_limit) csv
              else get_new_tickers_from_working_rolling (Some [Some t]) None csv) = [t]"
    using assms(1,3) by (simp add: new_single_ticker)
  have "fetch_prices_for_tickers get_price [t] = Inr [(t, p)]"
    using assms(2) by (simp add: fetch_prices_for_tickers_def)
  with new have "append_new_tickers get_price (Some [Some t]) test_mode test_limit csv
      = Inr (update_csv_with_new_tickers [(t, p)] csv)"
    unfolding append_new_tickers_def Let_def by simp
  then show ?thesis
    by (simp add: update_csv_with_new_tickers_def row_data_def)
qed

theorem append_new_ticker_row_witness:
  "append_new_tickers (\<lambda>i t. Inr (Some (25 / 2 :: real))) (Some [Some ''XYZ'']) False 100 None
     = Inr (Some [row_data ''XYZ'' (25 / 2)])
   \<and> ticker (row_data ''XYZ'' (25 / 2 :: real)) = ''XYZ''
   \<and> (\<forall>i. days_ago (row_data ''XYZ'' (25 / 2 :: real)) i = None)
   \<and> Today_price (row_data ''XYZ'' (25 / 2 :: real)) = Some (25 / 2)
   \<and> Day_move (row_data ''XYZ'' (25 / 2 :: real)) = Some 0
   \<and> Week_move (row_data ''XYZ'' (25 / 2 :: real)) = Some 0
   \<and> Month_move (row_data ''XYZ'' (25 / 2 :: real)) = Some 0"
proof -
  have a: "''XYZ'' \<notin> set (load_existing_tickers (None :: real store))"
    by (simp add: load_existing_tickers_def)
  have b: "(\<lambda>(i :: nat) (t :: string). (Inr (Some (25 / 2 :: real)) :: py_error + real option)) 0 ''XYZ''
      = Inr (Some (25 / 2))"
    by simp
  have c: "False \<longrightarrow> (0 :: int) \<le> 100"
    by simp
  show ?thesis
    using append_new_ticker_row [OF a b c] by simp
qed

section \<open>Properties of the price snapshot fetch\<close>

text \<open>
  With a positive bound the call sends one request and its result is that of the first
  outcome: no path of the loop body reaches a second iteration.
\<close>

lemma get_ticker_price_one_request:
  assumes "0 < max_retries"
  shows "get_ticker_price float_of_str net max_retries =
     (case try_body float_of_str (net 0) of
        Inr r \<Rightarrow> Inr r
      | Inl e \<Rightarrow> if e = RequestException \<or> e = ValueError \<or> e = KeyError then Inr None else Inl e,
      1)"
proof -
  obtain n where "nat max_retries = Suc n"
    using assms by (cases "nat max_retries") auto
  then show ?thesis
    by (simp add: get_ticker_price_def split: sum.splits)
qed

lemma price_of_snapshot_body: "price_of_data float_of_str snapshot_body = Inr (Some (25 / 2))"
  by (simp add: price_of_data_def snapshot_body_def py_get_def py_in_def py_getitem_def
      has_close_def close_of_def py_float_def)

text \<open>
  C9, at a concrete input. On \<open>flaky_net\<close> the first request fails and the second would be
  answered with the closing price 12.5. The call with the bound 2 returns \<^verbatim>\<open>None\<close> after
  one request; had it sent the second request, that one alone gives the price.
\<close>

theorem no_second_attempt:
  "get_ticker_price (\<lambda>s. None) flaky_net 2 = (Inr None, 1)
   \<and> get_ticker_price (\<lambda>s. None) (\<lambda>k. flaky_net (Suc k)) 2 = (Inr (Some (25 / 2)), 1)"
  by (simp add: get_ticker_price_one_request flaky_net_def try_body_def price_of_snapshot_body)

text \<open>
  Two more outcomes of the one request: a server error gives \<^verbatim>\<open>None\<close> at once, and a
  closing price that is \<^verbatim>\<open>null\<close> makes \<^verbatim>\<open>float\<close> raise a \<^verbatim>\<open>TypeError\<close> that no clause catches.
\<close>

lemma server_error_is_None:
  "get_ticker_price float_of_str (\<lambda>k. Response 500 body) 2 = (Inr None, 1)"
  by (simp add: get_ticker_price_one_request try_body_def)

lemma null_close_raises:
  "get_ticker_price float_of_str
     (\<lambda>k. Response 200 (Some (PDict [(PStr ''status'', PStr ''OK''),
        (PStr ''ticker'', PDict [(PStr ''min'', PDict [(PStr ''c'', PNone)])])]))) 2
   = (Inl TypeError, 1)"
  by (simp add: get_ticker_price_one_request try_body_def price_of_data_def py_get_def py_in_def
      py_getitem_def has_close_def close_of_def py_float_def)

section \<open>Properties of the deduplication\<close>

subsection \<open>Dropping duplicates\<close>

lemma drop_duplicates_seen_subset: "set (drop_duplicates_seen key seen rs) \<subseteq> set rs"
  by (induction rs arbitrary: seen) auto

lemma keys_drop_duplicates_seen:
  "key ` set (drop_duplicates_seen key seen rs) = key ` set rs - set seen"
  by (induction rs arbitrary: seen) auto

lemma distinct_drop_duplicates_seen:
  "distinct (map key (drop_duplicates_seen key seen rs))"
  by (induction rs arbitrary: seen) (auto simp: keys_drop_duplicates_seen)

lemma find_drop_duplicates_seen:
  "find (\<lambda>r. key r = k) (drop_duplicates_seen key seen rs) =
     (if k \<in> set seen then None else find (\<lambda>r. key r = k) rs)"
  by (induction rs arbitrary: seen) auto

lemma no_duplicates_drop:
  "filter (\<lambda>d. d) (duplicated_seen key seen rs) = [] \<Longrightarrow> drop_duplicates_seen key seen rs = rs"
  by (induction rs arbitrary: seen) (auto split: if_splits)

text \<open>The count only saves work: without duplicates, dropping them changes nothing.\<close>

lemma drop_if_duplicated_eq: "drop_if_duplicated key df = drop_duplicates key df"
  by (simp add: drop_if_duplicated_def drop_duplicates_def duplicated_def no_duplicates_drop Let_def)

lemma drop_duplicates_seen_id:
  "distinct (map key rs) \<Longrightarrow> key ` set rs \<inter> set seen = {} \<Longrightarrow> drop_duplicates_seen key seen rs = rs"
  by (induction rs arbitrary: seen) auto

lemma sorted_drop_duplicates_seen:
  "sorted (map f rs) \<Longrightarrow> sorted (map f (drop_duplicates_seen key seen rs))"
proof (induction rs arbitrary: seen)
  case Nil
  then show ?case by simp
next
  case (Cons r rs)
  then show ?case
    using drop_duplicates_seen_subset [of key _ rs] by (auto simp: subset_iff)
qed

lemma find_filter_hd: "find P xs = (case filter P xs of [] \<Rightarrow> None | x # _ \<Rightarrow> Some x)"
  by (induction xs) auto

lemma find_key_distinct:
  "distinct (map key xs) \<Longrightarrow> r \<in> set xs \<Longrightarrow> find (\<lambda>y. key y = key r) xs = Some r"
  by (induction xs) (auto simp: image_iff)

lemma kept_is_first_with_key:
  assumes "r \<in> set (drop_duplicates key rs)"
  shows "find (\<lambda>y. key y = key r) rs = Some r"
proof -
  have "find (\<lambda>y. key y = key r) (drop_duplicates key rs) = Some r"
    using assms distinct_drop_duplicates_seen [of key "[]" rs]
    by (simp add: drop_duplicates_def find_key_distinct)
  then show ?thesis
    by (simp add: drop_duplicates_def find_drop_duplicates_seen)
qed

lemma first_in_sorted_is_least:
  "sorted (map f xs) \<Longrightarrow> find P xs = Some r \<Longrightarrow> x \<in> set xs \<Longrightarrow> P x \<Longrightarrow> f r \<le> f x"
  by (induction xs) (auto split: if_splits)

lemma find_narrow:
  "find P xs = Some r \<Longrightarrow> Q r \<Longrightarrow> (\<And>y. Q y \<Longrightarrow> P y) \<Longrightarrow> find Q xs = Some r"
  by (induction xs) (auto split: if_splits)

subsection \<open>The sort order\<close>

lemma ticker_rank_inj: "ticker_rank a = ticker_rank b \<longleftrightarrow> a = b"
  by (auto simp: ticker_rank_def split: option.splits)

text \<open>One field ranks before another exactly when it is at least as recent.\<close>

lemma filed_rank_le:
  "filed_rank a \<le> filed_rank b \<longleftrightarrow>
     (\<forall>n. b = Stamp n \<longrightarrow> (\<exists>m. a = Stamp m \<and> n \<le> m))"
  by (cases a; cases b) (auto simp: filed_rank_def less_eq_prod_def)

lemma to_datetime_idem: "to_datetime parse (to_datetime parse c) = to_datetime parse c"
  by (cases c) (auto simp: to_datetime_def split: option.splits)

lemma first_of_rank_stable:
  assumes "find (\<lambda>y. sort_rank y = k) (sort_values xs) = Some r"
  shows "find (\<lambda>y. sort_rank y = k) xs = Some r"
  using assms sort_key_stable [of sort_rank k xs]
  by (simp add: find_filter_hd sort_values_def)

lemma sorted_sort_values: "sorted (map sort_rank (sort_values df))"
  by (simp add: sort_values_def)

lemma set_sort_values: "set (sort_values df) = set df"
  by (simp add: sort_values_def)

lemma ticker_cell_filedAt_to_datetime:
  "map ticker_cell (filedAt_to_datetime parse df) = map ticker_cell df"
  by (simp add: filedAt_to_datetime_def)

lemma frame_rows_deduplicate:
  "has_ticker df \<Longrightarrow> frame_rows (deduplicate parse df) =
     (if has_filedAt df then
        drop_duplicates ticker_cell (sort_values (filedAt_to_datetime parse (frame_rows df)))
      else drop_duplicates ticker_cell (frame_rows df))"
  by (simp add: deduplicate_def drop_if_duplicated_eq Let_def)

text \<open>The row kept for a ticker, among the sorted rows: nothing with its ticker ranks before it.\<close>

lemma kept_row_ranks_first:
  assumes "r \<in> set (drop_duplicates ticker_cell (sort_values df))"
    and "x \<in> set df"
    and "ticker_cell x = ticker_cell r"
  shows "filed_rank (filedAt r) \<le> filed_rank (filedAt x)"
proof -
  have "find (\<lambda>y. ticker_cell y = ticker_cell r) (sort_values df) = Some r"
    using assms(1) by (rule kept_is_first_with_key)
  moreover have "x \<in> set (sort_values df)"
    using assms(2) by (simp add: set_sort_values)
  ultimately have "sort_rank r \<le> sort_rank x"
    using sorted_sort_values [of df] assms(3) first_in_sorted_is_least by fast
  then show ?thesis
    using assms(3) by (simp add: sort_rank_def less_eq_prod_def)
qed

lemma kept_row_first_of_its_rank:
  assumes "r \<in> set (drop_duplicates ticker_cell (sort_values df))"
  shows "find (\<lambda>y. sort_rank y = sort_rank r) df = Some r"
proof -
  have "find (\<lambda>y. ticker_cell y = ticker_cell r) (sort_values df) = Some r"
    using assms by (rule kept_is_first_with_key)
  then have "find (\<lambda>y. sort_rank y = sort_rank r) (sort_values df) = Some r"
    by (rule find_narrow) (simp_all add: sort_rank_def ticker_rank_inj)
  then show ?thesis
    by (rule first_of_rank_stable)
qed

subsection \<open>The deduplication step\<close>

text \<open>
  C6. For a table with a ticker column, after the step there is one row for every ticker
  of the table and no ticker twice. With a \<^verbatim>\<open>filedAt\<close> column the rows kept are the first
  ones per ticker of the table sorted by ticker ascending and timestamp descending; the
  row kept for a ticker is a row of the (converted) table, every timestamp filed under
  that ticker is at most its timestamp, and among the rows with its ticker and timestamp
  it is the first in input order. Without that column the row kept for a ticker is the
  first row with that ticker in input order.
\<close>

theorem deduplicate_keeps_most_recent:
  fixes df :: "'p frame"
  assumes "has_ticker df"
  shows "distinct (map ticker_cell (frame_rows (deduplicate parse df)))
       \<and> ticker_cell ` set (frame_rows (deduplicate parse df)) = ticker_cell ` set (frame_rows df)
       \<and> (if has_filedAt df then
            frame_rows (deduplicate parse df)
              = drop_duplicates ticker_cell (sort_values (filedAt_to_datetime parse (frame_rows df)))
          \<and> sorted (map sort_rank (sort_values (filedAt_to_datetime parse (frame_rows df))))
          \<and> (\<forall>r \<in> set (frame_rows (deduplicate parse df)).
                r \<in> set (filedAt_to_datetime parse (frame_rows df))
              \<and> (\<forall>x \<in> set (filedAt_to_datetime parse (frame_rows df)).
                    ticker_cell x = ticker_cell r \<longrightarrow>
                    (\<forall>n. filedAt x = Stamp n \<longrightarrow> (\<exists>m. filedAt r = Stamp m \<and> n \<le> m)))
              \<and> find (\<lambda>y. sort_rank y = sort_rank r) (filedAt_to_datetime parse (frame_rows df)) = Some r)
          else
            (\<forall>r \<in> set (frame_rows (deduplicate parse df)).
                find (\<lambda>y. ticker_cell y = ticker_cell r) (frame_rows df) = Some r))"
proof -
  let ?conv = "filedAt_to_datetime parse (frame_rows df)"
  let ?out = "frame_rows (deduplicate parse df)"
  note out = frame_rows_deduplicate [OF assms, of parse]
  have keys_conv: "ticker_cell ` set ?conv = ticker_cell ` set (frame_rows df)"
    using ticker_cell_filedAt_to_datetime [of parse "frame_rows df"]
    by (metis list.set_map)
  have "distinct (map ticker_cell ?out)"
    by (simp add: out drop_duplicates_def distinct_drop_duplicates_seen)
  moreover have "ticker_cell ` set ?out = ticker_cell ` set (frame_rows df)"
    by (simp add: out drop_duplicates_def keys_drop_duplicates_seen set_sort_values keys_conv)
  moreover have "?out = drop_duplicates ticker_cell (sort_values ?conv)" if "has_filedAt df"
    using that by (simp add: out)
  moreover have "r \<in> set ?conv
      \<and> (\<forall>x \<in> set ?conv. ticker_cell x = ticker_cell r \<longrightarrow>
            (\<forall>n. filedAt x = Stamp n \<longrightarrow> (\<exists>m. filedAt r = Stamp m \<and> n \<le> m)))
      \<and> find (\<lambda>y. sort_rank y = sort_rank r) ?conv = Some r"
    if "has_filedAt df" and "r \<in> set ?out" for r
  proof -
    have kept: "r \<in> set (drop_duplicates ticker_cell (sort_values ?conv))"
      using that by (simp add: out)
    then have "r \<in> set ?conv"
      using drop_duplicates_seen_subset [of ticker_cell "[]" "sort_values ?conv"]
      by (auto simp: drop_duplicates_def set_sort_values)
    moreover have "\<forall>n. filedAt x = Stamp n \<longrightarrow> (\<exists>m. filedAt r = Stamp m \<and> n \<le> m)"
      if "x \<in> set ?conv" and "ticker_cell x = ticker_cell r" for x
      using kept_row_ranks_first [OF kept that] by (simp add: filed_rank_le)
    moreover have "find (\<lambda>y. sort_rank y = sort_rank r) ?conv = Some r"
      using kept by (rule kept_row_first_of_its_rank)
    ultimately show ?thesis
      by blast
  qed
  moreover have "find (\<lambda>y. ticker_cell y = ticker_cell r) (frame_rows df) = Some r"
    if "\<not> has_filedAt df" and "r \<in> set ?out" for r
    using that by (simp add: out kept_is_first_with_key)
  ultimately show ?thesis
    using sorted_sort_values [of ?conv] by auto
qed

theorem deduplicate_keeps_most_recent_witness:
  "frame_rows (deduplicate day_number filings_example)
     = [\<lparr>ticker_cell = Some ''AAA'', filedAt = Stamp 32, payload = 3\<rparr>,
        \<lparr>ticker_cell = Some ''BBB'', filedAt = Stamp 1, payload = 1\<rparr>]
   \<and> distinct (map ticker_cell (frame_rows (deduplicate day_number filings_example)))
   \<and> ticker_cell ` set (frame_rows (deduplicate day_number filings_example)) = {Some ''AAA'', Some ''BBB''}
   \<and> find (\<lambda>y. sort_rank y = sort_rank \<lparr>ticker_cell = Some ''AAA'', filedAt = Stamp 32, payload = 3 :: nat\<rparr>)
        (filedAt_to_datetime day_number (frame_rows filings_example))
       = Some \<lparr>ticker_cell = Some ''AAA'', filedAt = Stamp 32, payload = 3\<rparr>"
proof -
  let ?r = "\<lparr>ticker_cell = Some ''AAA'', filedAt = Stamp 32, payload = 3 :: nat\<rparr>"
  have rows: "frame_rows (deduplicate day_number filings_example)
     = [?r, \<lparr>ticker_cell = Some ''BBB'', filedAt = Stamp 1, payload = 1\<rparr>]"
    by (simp add: deduplicate_def filings_example_def day_number_def filedAt_to_datetime_def
        to_datetime_def sort_values_def sort_rank_def ticker_rank_def filed_rank_def
        drop_if_duplicated_def duplicated_def drop_duplicates_def Let_def)
  have cols: "has_ticker filings_example" "has_filedAt filings_example"
    by (simp_all add: filings_example_def)
  have keys: "ticker_cell ` set (frame_rows filings_example) = {Some ''AAA'', Some ''BBB''}"
    by (auto simp: filings_example_def)
  note kept = deduplicate_keeps_most_recent [OF cols(1), of day_number, unfolded if_P [OF cols(2)]]
  have "distinct (map ticker_cell (frame_rows (deduplicate day_number filings_example)))"
    using kept by (rule conjunct1)
  moreover have "ticker_cell ` set (frame_rows (deduplicate day_number filings_example))
      = {Some ''AAA'', Some ''BBB''}"
    using kept [THEN conjunct2, THEN conjunct1] keys by (rule trans)
  moreover have "?r \<in> set (frame_rows (deduplicate day_number filings_example))"
    by (simp add: rows)
  with kept have "find (\<lambda>y. sort_rank y = sort_rank ?r)
      (filedAt_to_datetime day_number (frame_rows filings_example)) = Some ?r"
    by blast
  ultimately show ?thesis
    using rows by blast
qed

text \<open>
  C7. The step applied to its own result changes nothing: the timestamps are converted
  already, the rows are in sorted order already, and no ticker occurs twice.
\<close>

theorem deduplicate_idempotent:
  "deduplicate parse (deduplicate parse df) = deduplicate parse df"
proof (cases "has_ticker df")
  case False
  then show ?thesis
    by (simp add: deduplicate_def)
next
  case True
  let ?out = "frame_rows (deduplicate parse df)"
  have flags: "has_ticker (deduplicate parse df)" "has_filedAt (deduplicate parse df) = has_filedAt df"
    using True by (simp_all add: deduplicate_def Let_def)
  have dist: "distinct (map ticker_cell ?out)"
    using True by (simp add: frame_rows_deduplicate drop_duplicates_def distinct_drop_duplicates_seen)
  then have same: "drop_duplicates ticker_cell ?out = ?out"
    by (simp add: drop_duplicates_def drop_duplicates_seen_id)
  have again: "frame_rows (deduplicate parse (deduplicate parse df)) = ?out"
  proof (cases "has_filedAt df")
    case False
    then show ?thesis
      using flags same by (simp add: frame_rows_deduplicate)
  next
    case filed: True
    let ?conv = "filedAt_to_datetime parse (frame_rows df)"
    have out: "?out = drop_duplicates ticker_cell (sort_values ?conv)"
      using True filed by (simp add: frame_rows_deduplicate)
    have "set ?out \<subseteq> set ?conv"
      using drop_duplicates_seen_subset [of ticker_cell "[]" "sort_values ?conv"]
      by (simp add: out drop_duplicates_def set_sort_values)
    then have "r\<lparr>filedAt := to_datetime parse (filedAt r)\<rparr> = r" if "r \<in> set ?out" for r
      using that by (auto simp: filedAt_to_datetime_def to_datetime_idem)
    then have conv: "filedAt_to_datetime parse ?out = ?out"
      by (simp add: filedAt_to_datetime_def map_idI)
    have "sorted (map sort_rank ?out)"
      unfolding out drop_duplicates_def
      by (rule sorted_drop_duplicates_seen) (rule sorted_sort_values)
    then have "sort_values ?out = ?out"
      by (simp add: sort_values_def sort_key_id_if_sorted)
    then show ?thesis
      using flags filed same conv by (simp add: frame_rows_deduplicate)
  qed
  have "deduplicate parse x = x\<lparr>frame_rows := frame_rows (deduplicate parse x)\<rparr>" for x :: "'a frame"
    by (simp add: deduplicate_def Let_def)
  from this [of "deduplicate parse df"] show ?thesis
    by (simp add: again)
qed

theorem deduplicate_idempotent_witness:
  "deduplicate day_number (deduplicate day_number filings_example) = deduplicate day_number filings_example"
  by (rule deduplicate_idempotent)

section \<open>Properties of the ticker extraction and the merge\<close>

subsection \<open>One ticker per filing row\<close>





subsection \<open>Duplicates among groups of equal keys\<close>




subsection \<open>The merge\<close>









subsection \<open>The claim on the extraction\<close>






end
